theory Spec2Isabelle
  imports Main "HOL-Library.AList" "HOL-Library.Char_ord" "HOL-Library.List_Lexorder"
begin

section \<open>Python values and exceptions\<close>

text \<open>
  The validators of \<^verbatim>\<open>BaseFilterModel\<close> run in mode \<^verbatim>\<open>before\<close> on every field, so they
  see raw Python values. A value is one of the shapes below; a pydantic model instance is its
  class name and its fields in declaration order, each field with its name, its alias (if it
  has one), the flag telling whether it was supplied at construction (membership in
  \<^verbatim>\<open>model_fields_set\<close>) and its value. \<open>PObject\<close> is any other object (a bound method, for
  instance), known by the name of its type only.
\<close>

datatype pyval =
    PNone
  | PBool bool
  | PInt int
  | PStr string
  | PList "pyval list"
  | PTuple "pyval list"
  | PDict "(string \<times> pyval) list"
  | PModel string "pyfield list"
  | PObject string
and pyfield =
    PyField (fname: string) (falias: "string option") (fset: bool) (fvalue: pyval)

record error_details =
  err_type :: string
  err_loc :: "string list"
  err_msg :: string

datatype exn =
    ValueError string
  | AttributeError string
  | TypeError string
  | ValidationError "error_details list"
  | RequestValidationError "error_details list"

text \<open>\<^verbatim>\<open>type(v).__name__\<close>; for a model or another object the name it was given.\<close>

fun type_name :: "pyval \<Rightarrow> string" where
  "type_name PNone = ''NoneType''"
| "type_name (PBool b) = ''bool''"
| "type_name (PInt i) = ''int''"
| "type_name (PStr s) = ''str''"
| "type_name (PList vs) = ''list''"
| "type_name (PTuple vs) = ''tuple''"
| "type_name (PDict kvs) = ''dict''"
| "type_name (PModel cls fs) = cls"
| "type_name (PObject t) = t"

text \<open>Truth value of a Python object, as \<^verbatim>\<open>not value\<close> tests it.\<close>

fun truthy :: "pyval \<Rightarrow> bool" where
  "truthy PNone = False"
| "truthy (PBool b) = b"
| "truthy (PInt i) = (i \<noteq> 0)"
| "truthy (PStr s) = (s \<noteq> [])"
| "truthy (PList vs) = (vs \<noteq> [])"
| "truthy (PTuple vs) = (vs \<noteq> [])"
| "truthy (PDict kvs) = (kvs \<noteq> [])"
| "truthy (PModel cls fs) = True"
| "truthy (PObject t) = True"

text \<open>
  The elements a \<^verbatim>\<open>for\<close> loop sees: the characters of a string, the elements of a list or
  tuple, the keys of a dict, the (name, value) pairs of a model. \<open>None\<close> for a value that is
  not iterable.
\<close>

fun py_iter :: "pyval \<Rightarrow> pyval list option" where
  "py_iter (PStr s) = Some (map (\<lambda>c. PStr [c]) s)"
| "py_iter (PList vs) = Some vs"
| "py_iter (PTuple vs) = Some vs"
| "py_iter (PDict kvs) = Some (map (\<lambda>kv. PStr (fst kv)) kvs)"
| "py_iter (PModel cls fs) = Some (map (\<lambda>f. PTuple [PStr (fname f), fvalue f]) fs)"
| "py_iter PNone = None"
| "py_iter (PBool b) = None"
| "py_iter (PInt i) = None"
| "py_iter (PObject t) = None"

definition not_iterable :: "pyval \<Rightarrow> exn" where
  "not_iterable v = TypeError ([CHR 0x27] @ type_name v @ [CHR 0x27] @ '' object is not iterable'')"

definition no_attribute :: "pyval \<Rightarrow> string \<Rightarrow> exn" where
  "no_attribute v a =
     AttributeError ([CHR 0x27] @ type_name v @ [CHR 0x27] @ '' object has no attribute ''
                     @ [CHR 0x27] @ a @ [CHR 0x27])"

section \<open>String operations\<close>

text \<open>
  \<^verbatim>\<open>str.strip()\<close> removes leading and trailing whitespace; within the 8-bit characters these
  are the code points 9 to 13, 28 to 32, 133 and 160.
\<close>

definition is_space :: "char \<Rightarrow> bool" where
  "is_space c = (let n = (of_char c :: nat) in
                   (9 \<le> n \<and> n \<le> 13) \<or> (28 \<le> n \<and> n \<le> 32) \<or> n = 133 \<or> n = 160)"

definition str_strip :: "string \<Rightarrow> string" where
  "str_strip s = rev (dropWhile is_space (rev (dropWhile is_space s)))"

text \<open>\<^verbatim>\<open>s.replace(c, "")\<close> for a one-character \<open>c\<close>: every occurrence is removed.\<close>

definition str_remove :: "char \<Rightarrow> string \<Rightarrow> string" where
  "str_remove c s = filter (\<lambda>x. x \<noteq> c) s"

text \<open>\<^verbatim>\<open>sep.join(xs)\<close> on a list of strings.\<close>

fun str_join :: "string \<Rightarrow> string list \<Rightarrow> string" where
  "str_join sep [] = []"
| "str_join sep [x] = x"
| "str_join sep (x # y # ys) = x @ sep @ str_join sep (y # ys)"

text \<open>\<^verbatim>\<open>s.removeprefix(p)\<close>.\<close>

definition removeprefix :: "string \<Rightarrow> string \<Rightarrow> string" where
  "removeprefix p s = (if take (length p) s = p then drop (length p) s else s)"

section \<open>The base filter: Constants and the two ordering validators\<close>

text \<open>
  \<^verbatim>\<open>Constants.model\<close> is used through \<^verbatim>\<open>hasattr(cls.Constants.model, name)\<close> only, so the
  target model is represented by that test.
\<close>

record Constants =
  model :: "string \<Rightarrow> bool"
  ordering_field_name :: string
  search_model_fields :: "string list"
  search_field_name :: string
  prefix :: string

text \<open>The loop of \<^verbatim>\<open>strip_order_by_values\<close>; the accumulator is \<^verbatim>\<open>stripped_values\<close>.\<close>

fun strip_loop :: "pyval list \<Rightarrow> pyval list \<Rightarrow> exn + pyval list" where
  "strip_loop [] stripped_values = Inr stripped_values"
| "strip_loop (PStr field_name # rest) stripped_values =
     (let stripped_value = str_strip field_name in
      if stripped_value \<noteq> [] then strip_loop rest (stripped_values @ [PStr stripped_value])
      else strip_loop rest stripped_values)"
| "strip_loop (v # rest) stripped_values = Inl (no_attribute v ''strip'')"

definition strip_order_by_values :: "Constants \<Rightarrow> pyval \<Rightarrow> string \<Rightarrow> exn + pyval" where
  "strip_order_by_values c value field_name =
     (if field_name \<noteq> ordering_field_name c then Inr value
      else if \<not> truthy value then Inr PNone
      else case py_iter value of
             None \<Rightarrow> Inl (not_iterable value)
           | Some items \<Rightarrow>
               (case strip_loop items [] of
                  Inl e \<Rightarrow> Inl e
                | Inr stripped_values \<Rightarrow> Inr (PList stripped_values)))"

text \<open>
  \<^verbatim>\<open>field_name_usages\<close> is a \<^verbatim>\<open>defaultdict(list)\<close>: an insertion-ordered dictionary from a
  base field name to the tokens that used it. \<^verbatim>\<open>duplicated_field_names\<close> is a set, kept as
  a list without repetitions; it is only read through \<^verbatim>\<open>sorted\<close>.
\<close>

type_synonym usages = "(string \<times> string list) list"

definition usages_get :: "usages \<Rightarrow> string \<Rightarrow> string list" where
  "usages_get u k = (case map_of u k of None \<Rightarrow> [] | Some l \<Rightarrow> l)"

definition usages_append :: "usages \<Rightarrow> string \<Rightarrow> string \<Rightarrow> usages" where
  "usages_append u k tok = AList.update k (usages_get u k @ [tok]) u"

definition base_field_name :: "string \<Rightarrow> string" where
  "base_field_name field_name_with_direction =
     str_remove (CHR ''+'') (str_remove (CHR ''-'') field_name_with_direction)"

definition not_valid_ordering_field :: "string \<Rightarrow> exn" where
  "not_valid_ordering_field field_name = ValueError (field_name @ '' is not a valid ordering field.'')"

fun validate_loop ::
  "Constants \<Rightarrow> pyval list \<Rightarrow> usages \<Rightarrow> string list \<Rightarrow> exn + usages \<times> string list" where
  "validate_loop c [] field_name_usages duplicated_field_names =
     Inr (field_name_usages, duplicated_field_names)"
| "validate_loop c (PStr field_name_with_direction # rest) field_name_usages duplicated_field_names =
     (let field_name = base_field_name field_name_with_direction in
      if \<not> model c field_name then Inl (not_valid_ordering_field field_name)
      else
        let field_name_usages' = usages_append field_name_usages field_name field_name_with_direction in
        if length (usages_get field_name_usages' field_name) > 1
        then validate_loop c rest field_name_usages' (List.insert field_name duplicated_field_names)
        else validate_loop c rest field_name_usages' duplicated_field_names)"
| "validate_loop c (v # rest) field_name_usages duplicated_field_names =
     Inl (no_attribute v ''replace'')"

definition ambiguous_error :: "Constants \<Rightarrow> string list \<Rightarrow> exn" where
  "ambiguous_error c tokens =
     ValueError (''Field names can appear at most once for '' @ ordering_field_name c @ ''. ''
                 @ ''The following was ambiguous: '' @ str_join '', '' tokens @ ''.'')"

definition validate_order_by :: "Constants \<Rightarrow> pyval \<Rightarrow> string \<Rightarrow> exn + pyval" where
  "validate_order_by c value field_name =
     (if field_name \<noteq> ordering_field_name c then Inr value
      else if \<not> truthy value then Inr PNone
      else case py_iter value of
             None \<Rightarrow> Inl (not_iterable value)
           | Some items \<Rightarrow>
               (case validate_loop c items [] [] of
                  Inl e \<Rightarrow> Inl e
                | Inr (field_name_usages, duplicated_field_names) \<Rightarrow>
                    if duplicated_field_names \<noteq> []
                    then Inl (ambiguous_error c
                                (concat (map (usages_get field_name_usages)
                                             (sort duplicated_field_names))))
                    else Inr value))"

text \<open>The two rules in the order the specification names them: strip, then validate.\<close>

definition strip_then_validate :: "Constants \<Rightarrow> pyval \<Rightarrow> string \<Rightarrow> exn + pyval" where
  "strip_then_validate c value field_name =
     (case strip_order_by_values c value field_name of
        Inl e \<Rightarrow> Inl e
      | Inr stripped \<Rightarrow> validate_order_by c stripped field_name)"

section \<open>Serialising a model instance\<close>

text \<open>
  pydantic's \<^verbatim>\<open>model_dump(by_alias, exclude_unset, exclude_none)\<close>: the fields in declaration
  order, without the fields that were not supplied when \<^verbatim>\<open>exclude_unset\<close> is set and without
  the fields whose value is \<^verbatim>\<open>None\<close> when \<^verbatim>\<open>exclude_none\<close> is set, under their alias when
  \<^verbatim>\<open>by_alias\<close> is set and they have one; nested models are serialised by the same rule.
\<close>

definition dump_key :: "bool \<Rightarrow> pyfield \<Rightarrow> string" where
  "dump_key by_alias f =
     (if by_alias then (case falias f of Some a \<Rightarrow> a | None \<Rightarrow> fname f) else fname f)"

fun dump_value :: "bool \<Rightarrow> bool \<Rightarrow> bool \<Rightarrow> pyval \<Rightarrow> pyval"
  and model_dump :: "bool \<Rightarrow> bool \<Rightarrow> bool \<Rightarrow> pyfield list \<Rightarrow> (string \<times> pyval) list" where
  "dump_value by_alias exclude_unset exclude_none (PModel cls fs) =
     PDict (model_dump by_alias exclude_unset exclude_none fs)"
| "dump_value by_alias exclude_unset exclude_none (PList vs) =
     PList (map (dump_value by_alias exclude_unset exclude_none) vs)"
| "dump_value by_alias exclude_unset exclude_none (PTuple vs) =
     PTuple (map (dump_value by_alias exclude_unset exclude_none) vs)"
| "dump_value by_alias exclude_unset exclude_none (PDict kvs) =
     PDict (map (\<lambda>kv. (fst kv, dump_value by_alias exclude_unset exclude_none (snd kv))) kvs)"
| "dump_value by_alias exclude_unset exclude_none PNone = PNone"
| "dump_value by_alias exclude_unset exclude_none (PBool b) = PBool b"
| "dump_value by_alias exclude_unset exclude_none (PInt i) = PInt i"
| "dump_value by_alias exclude_unset exclude_none (PStr s) = PStr s"
| "dump_value by_alias exclude_unset exclude_none (PObject t) = PObject t"
| "model_dump by_alias exclude_unset exclude_none [] = []"
| "model_dump by_alias exclude_unset exclude_none (PyField name alias is_set v # fs) =
     (if (exclude_unset \<and> \<not> is_set) \<or> (exclude_none \<and> v = PNone)
      then model_dump by_alias exclude_unset exclude_none fs
      else (dump_key by_alias (PyField name alias is_set v),
            dump_value by_alias exclude_unset exclude_none v)
           # model_dump by_alias exclude_unset exclude_none fs)"


section \<open>The base filter: filtering_fields and ordering_values\<close>

text \<open>
  \<^verbatim>\<open>fields.pop(key, None)\<close> on the dumped dictionary is \<open>AList.delete\<close>; the property returns
  the items of what is left.
\<close>

definition filtering_fields :: "Constants \<Rightarrow> pyfield list \<Rightarrow> (string \<times> pyval) list" where
  "filtering_fields c self =
     (let fields = model_dump False True True self
      in AList.delete (ordering_field_name c) fields)"

text \<open>
  \<^verbatim>\<open>getattr(self, name)\<close> on an instance of class \<open>cls\<close>: a field gives its value; any other
  attribute of the class (a method such as \<^verbatim>\<open>filter\<close>, a property, the nested class
  \<^verbatim>\<open>Constants\<close>) gives what evaluating it gives, which \<open>class_attrs\<close> records; a name that
  is neither raises \<^verbatim>\<open>AttributeError\<close>.
\<close>

definition py_getattr ::
  "(string \<Rightarrow> (exn + pyval) option) \<Rightarrow> string \<Rightarrow> pyfield list \<Rightarrow> string \<Rightarrow> exn + pyval" where
  "py_getattr class_attrs cls self name =
     (case find (\<lambda>f. fname f = name) self of
        Some f \<Rightarrow> Inr (fvalue f)
      | None \<Rightarrow>
          (case class_attrs name of
             Some r \<Rightarrow> r
           | None \<Rightarrow> Inl (no_attribute (PModel cls self) name)))"

definition ordering_values ::
  "Constants \<Rightarrow> (string \<Rightarrow> (exn + pyval) option) \<Rightarrow> string \<Rightarrow> pyfield list \<Rightarrow> exn + pyval" where
  "ordering_values c class_attrs cls self =
     (case py_getattr class_attrs cls self (ordering_field_name c) of
        Inl (AttributeError e) \<Rightarrow>
          Inl (AttributeError (''Ordering field '' @ ordering_field_name c @ '' is not defined. ''
                               @ ''Make sure to add it to your filter class.''))
      | Inl e \<Rightarrow> Inl e
      | Inr v \<Rightarrow> Inr v)"

section \<open>with_prefix\<close>

text \<open>The alias generator of \<^verbatim>\<open>NestedFilter\<close>.\<close>

definition alias_generator :: "string \<Rightarrow> string \<Rightarrow> string" where
  "alias_generator pfx string = pfx @ ''__'' @ string"

text \<open>
  The dictionary comprehension of \<^verbatim>\<open>plain_validator\<close>: the items are taken in order and each
  is stored under its new key, a later item replacing an earlier one with the same key.
\<close>

definition stripped_dict :: "string \<Rightarrow> (string \<times> pyval) list \<Rightarrow> (string \<times> pyval) list" where
  "stripped_dict pfx items =
     foldl (\<lambda>d kv. AList.update (removeprefix pfx (fst kv)) (snd kv) d) [] items"

text \<open>
  \<^verbatim>\<open>plain_validator\<close>, for the prefix \<open>pfx\<close> stored in \<^verbatim>\<open>NestedFilter.Constants.prefix\<close> and the
  constructor of the original schema \<^verbatim>\<open>Filter\<close>, which takes the keyword arguments and
  returns an instance or raises.
\<close>

definition plain_validator ::
  "string \<Rightarrow> ((string \<times> pyval) list \<Rightarrow> exn + 'f) \<Rightarrow> pyval \<Rightarrow> exn + 'f" where
  "plain_validator pfx Filter value =
     (let value = (case value of
                     PModel cls fs \<Rightarrow> PDict (model_dump False False False fs)
                   | _ \<Rightarrow> value)
      in case value of
           PDict items \<Rightarrow> Filter (stripped_dict pfx items)
         | _ \<Rightarrow> Inl (ValueError (''Unexpected type: <class '' @ [CHR 0x27] @ type_name value
                                  @ [CHR 0x27] @ ''>'')))"

text \<open>
  Construction of a closed schema (\<^verbatim>\<open>extra="forbid"\<close>, line 20) named \<open>cls\<close> whose declared
  fields all have type \<^verbatim>\<open>Optional[Any]\<close> and default \<^verbatim>\<open>None\<close>, none of them the ordering
  field: the only check is that every keyword is a declared field.
\<close>

definition closed_schema_init ::
  "string \<Rightarrow> string list \<Rightarrow> (string \<times> pyval) list \<Rightarrow> exn + pyval" where
  "closed_schema_init cls declared kwargs =
     (let extra = filter (\<lambda>kv. fst kv \<notin> set declared) kwargs
      in if extra \<noteq> []
         then Inl (ValidationError
                     (map (\<lambda>kv. \<lparr>err_type = ''extra_forbidden'', err_loc = [fst kv],
                                 err_msg = ''Extra inputs are not permitted''\<rparr>) extra))
         else Inr (PModel cls
                     (map (\<lambda>n. case map_of kwargs n of
                                  Some v \<Rightarrow> PyField n None True v
                                | None \<Rightarrow> PyField n None False PNone) declared)))"

section \<open>The field-schema adapter\<close>

text \<open>
  A declared type: \<^verbatim>\<open>type(None)\<close>, a plain class by name, the bare \<^verbatim>\<open>list\<close>, a
  parametrised list, a union (\<^verbatim>\<open>Optional[X]\<close> is \<^verbatim>\<open>Union[X, None]\<close>), or another
  parametrised generic.
\<close>

datatype annotation =
    TNoneType
  | TClass string
  | TBareList
  | TList annotation
  | TUnion "annotation list"
  | TGeneric string "annotation list"

datatype default_value = PydanticUndefined | Default pyval

record FieldInfo =
  annotation :: annotation
  default_val :: default_value
  default_factory :: "pyval option"
  field_alias :: "string option"

definition is_required :: "FieldInfo \<Rightarrow> bool" where
  "is_required f = (default_val f = PydanticUndefined \<and> default_factory f = None)"

text \<open>Lines 206 to 211: a union with exactly one alternative other than None is unwrapped.\<close>

definition unwrap_union :: "annotation \<Rightarrow> annotation" where
  "unwrap_union a =
     (case a of
        TUnion args \<Rightarrow>
          (let annotation_args = (if TNoneType \<in> set args then remove1 TNoneType args else args)
           in case annotation_args of [x] \<Rightarrow> x | _ \<Rightarrow> a)
      | _ \<Rightarrow> a)"

text \<open>\<^verbatim>\<open>annotation is list or get_origin(annotation) is list\<close>.\<close>

fun is_list_annotation :: "annotation \<Rightarrow> bool" where
  "is_list_annotation TBareList = True"
| "is_list_annotation (TList a) = True"
| "is_list_annotation a = False"

text \<open>Decimal digits of a natural number, as Python formats an index.\<close>

fun show_nat :: "nat \<Rightarrow> string" where
  "show_nat n = (if n < 10 then [char_of (48 + n)]
                 else show_nat (n div 10) @ [char_of (48 + n mod 10)])"

declare show_nat.simps [simp del]

text \<open>
  \<^verbatim>\<open>sep.join(v)\<close> on any value: the elements of the iterable must all be strings; the first one
  that is not raises \<^verbatim>\<open>TypeError\<close> with its position.
\<close>

fun join_items :: "nat \<Rightarrow> pyval list \<Rightarrow> exn + string list" where
  "join_items i [] = Inr []"
| "join_items i (PStr s # rest) =
     (case join_items (Suc i) rest of Inl e \<Rightarrow> Inl e | Inr ss \<Rightarrow> Inr (s # ss))"
| "join_items i (v # rest) =
     Inl (TypeError (''sequence item '' @ show_nat i @ '': expected str instance, ''
                     @ type_name v @ '' found''))"

definition py_join :: "string \<Rightarrow> pyval \<Rightarrow> exn + string" where
  "py_join sep v =
     (case py_iter v of
        None \<Rightarrow> Inl (TypeError ''can only join an iterable'')
      | Some items \<Rightarrow>
          (case join_items 0 items of Inl e \<Rightarrow> Inl e | Inr ss \<Rightarrow> Inr (str_join sep ss)))"

text \<open>\<^verbatim>\<open>isinstance(field_info.default, Iterable)\<close>.\<close>

definition is_iterable :: "default_value \<Rightarrow> bool" where
  "is_iterable d = (case d of PydanticUndefined \<Rightarrow> False | Default v \<Rightarrow> py_iter v \<noteq> None)"

text \<open>
  The body of the loop of \<^verbatim>\<open>_list_to_str_fields\<close> for one field: the type and the field
  information stored under the field's name.
\<close>

definition adapt_field :: "FieldInfo \<Rightarrow> exn + annotation \<times> FieldInfo" where
  "adapt_field f =
     (let field_info = f;
          resolved = unwrap_union (annotation f)
      in if is_list_annotation resolved
         then
           (let new_type = (if is_required f then TClass ''str''
                            else TUnion [TClass ''str'', TNoneType])
            in case default_val field_info of
                 Default v \<Rightarrow>
                   if is_iterable (Default v)
                   then (case py_join '','' v of
                           Inl e \<Rightarrow> Inl e
                         | Inr s \<Rightarrow> Inr (new_type, field_info\<lparr>default_val := Default (PStr s)\<rparr>))
                   else Inr (new_type, field_info)
               | PydanticUndefined \<Rightarrow> Inr (new_type, field_info))
         else Inr (annotation f, field_info))"

fun list_to_str_loop ::
  "(string \<times> FieldInfo) list \<Rightarrow> (string \<times> annotation \<times> FieldInfo) list
   \<Rightarrow> exn + (string \<times> annotation \<times> FieldInfo) list" where
  "list_to_str_loop [] ret = Inr ret"
| "list_to_str_loop ((name, f) # rest) ret =
     (case adapt_field f of
        Inl e \<Rightarrow> Inl e
      | Inr entry \<Rightarrow> list_to_str_loop rest (AList.update name entry ret))"

definition list_to_str_fields ::
  "(string \<times> FieldInfo) list \<Rightarrow> exn + (string \<times> annotation \<times> FieldInfo) list" where
  "list_to_str_fields model_fields = list_to_str_loop model_fields []"

section \<open>FilterDepends\<close>

text \<open>
  The two methods of \<^verbatim>\<open>FilterWrapper\<close>. \<open>Filter\<close> is the constructor of the original schema;
  \<open>Filter_filter\<close> and \<open>Filter_sort\<close> are its methods, which take the reconstructed instance,
  the call arguments and the state of the data-access layer, and return a result or raise,
  together with the new state.
\<close>

definition FilterWrapper_filter ::
  "((string \<times> pyval) list \<Rightarrow> exn + 'f) \<Rightarrow> ('f \<Rightarrow> 'a \<Rightarrow> 's \<Rightarrow> (exn + 'r) \<times> 's) \<Rightarrow> bool
   \<Rightarrow> pyfield list \<Rightarrow> 'a \<Rightarrow> 's \<Rightarrow> (exn + 'r) \<times> 's" where
  "FilterWrapper_filter Filter Filter_filter by_alias self args s =
     (case Filter (model_dump by_alias False False self) of
        Inl (ValidationError e) \<Rightarrow> (Inl (RequestValidationError e), s)
      | Inl e \<Rightarrow> (Inl e, s)
      | Inr original_filter \<Rightarrow> Filter_filter original_filter args s)"

definition FilterWrapper_sort ::
  "((string \<times> pyval) list \<Rightarrow> exn + 'f) \<Rightarrow> ('f \<Rightarrow> 'a \<Rightarrow> 's \<Rightarrow> (exn + 'r) \<times> 's) \<Rightarrow> bool
   \<Rightarrow> pyfield list \<Rightarrow> 'a \<Rightarrow> 's \<Rightarrow> (exn + 'r) \<times> 's" where
  "FilterWrapper_sort Filter Filter_sort by_alias self args s =
     (case Filter (model_dump by_alias False False self) of
        Inl (ValidationError e) \<Rightarrow> (Inl (RequestValidationError e), s)
      | Inl e \<Rightarrow> (Inl e, s)
      | Inr original_filter \<Rightarrow> Filter_sort original_filter args s)"

section \<open>Parsing a comma-separated parameter\<close>

text \<open>
  Modelled from the spec: the parsing of an adapted string back into a list at reconstruction
  time. The validator that does it belongs to the concrete filter classes of the repository,
  which are not among the sources here; the specification says of it: comma-separated scalar
  values in a single string parameter, parsed back to the original element type. The model
  splits the string at every comma; for string elements the pieces are the elements.
\<close>

fun split_commas :: "string \<Rightarrow> string list" where
  "split_commas [] = [[]]"
| "split_commas (ch # s) =
     (if ch = CHR '','' then [] # split_commas s
      else (case split_commas s of
              [] \<Rightarrow> [[ch]]
            | piece # pieces \<Rightarrow> (ch # piece) # pieces))"

definition reconstruct_list :: "string \<Rightarrow> pyval" where
  "reconstruct_list s = PList (map PStr (split_commas s))"

section \<open>Vocabulary for the ordering claims\<close>

text \<open>
  The tokens of a sequence that share a base field name, the base field names used more than
  once (in sorted order), and the tokens the ambiguity message lists: those of each duplicated
  name, name after name.
\<close>

definition tokens_of :: "string \<Rightarrow> string list \<Rightarrow> string list" where
  "tokens_of n ts = filter (\<lambda>t. base_field_name t = n) ts"

definition duplicated_names :: "string list \<Rightarrow> string list" where
  "duplicated_names ts =
     sort (remdups (filter (\<lambda>n. 1 < length (tokens_of n ts)) (map base_field_name ts)))"

definition ambiguous_tokens :: "string list \<Rightarrow> string list" where
  "ambiguous_tokens ts = concat (map (\<lambda>n. tokens_of n ts) (duplicated_names ts))"

text \<open>
  The base field name as the specification words it: the token without its leading direction
  marker, if it has one.
\<close>

fun spec_base_field_name :: "string \<Rightarrow> string" where
  "spec_base_field_name [] = []"
| "spec_base_field_name (ch # s) = (if ch = CHR ''+'' \<or> ch = CHR ''-'' then s else ch # s)"

text \<open>A schema configuration used for the concrete evaluations below.\<close>

definition example_constants :: Constants where
  "example_constants =
     \<lparr>model = (\<lambda>a. a \<in> set [''name'', ''age'', ''created_at'']),
      ordering_field_name = ''order_by'',
      search_model_fields = [],
      search_field_name = ''search'',
      prefix = ''''\<rparr>"

text \<open>
  An instance with four declared fields (\<^verbatim>\<open>age\<close> was not supplied, \<^verbatim>\<open>city\<close> was supplied as
  \<^verbatim>\<open>None\<close>), the methods \<^verbatim>\<open>filter\<close> and \<^verbatim>\<open>sort\<close> that lines 54 and 63 give every filter
  class, as \<^verbatim>\<open>getattr\<close> returns them (bound methods), an adapted instance as bound from
  \<^verbatim>\<open>count=5&order_by=-count\<close>, and a \<^verbatim>\<open>filter\<close>/\<^verbatim>\<open>sort\<close> implementation that returns the query
  and records the call in the state.
\<close>

definition example_fields :: "pyfield list" where
  "example_fields =
     [PyField ''name'' None True (PStr ''Bob''),
      PyField ''age'' None False PNone,
      PyField ''city'' None True PNone,
      PyField ''order_by'' None True (PList [PStr ''-age''])]"

definition example_class_attrs :: "string \<Rightarrow> (exn + pyval) option" where
  "example_class_attrs name =
     (if name = ''filter'' \<or> name = ''sort'' then Some (Inr (PObject ''method'')) else None)"

definition example_adapted :: "pyfield list" where
  "example_adapted =
     [PyField ''count'' None True (PInt 5),
      PyField ''order_by'' None True (PStr ''-count'')]"

definition logging_method ::
  "pyval \<Rightarrow> string \<Rightarrow> (string \<times> pyval) list \<Rightarrow> (exn + string) \<times> (string \<times> pyval) list" where
  "logging_method inst query s = (Inr query, s @ [(query, inst)])"

section \<open>Trimming\<close>

lemma strip_loop_strs:
  "strip_loop (map PStr ts) acc = Inr (acc @ map PStr (filter (\<lambda>s. s \<noteq> []) (map str_strip ts)))"
  by (induction ts arbitrary: acc) (simp_all add: Let_def)

lemma dropWhile_rev_hd:
  assumes "xs \<noteq> []" "\<not> P (hd xs)"
  shows "rev (dropWhile P (rev xs)) \<noteq> [] \<and> hd (rev (dropWhile P (rev xs))) = hd xs"
proof -
  obtain x ys where xs: "xs = x # ys" using assms(1) by (cases xs) auto
  have *: "dropWhile P (rev ys @ [x]) = (if \<forall>y\<in>set ys. P y then [x] else dropWhile P (rev ys) @ [x])"
    using assms(2) xs by (simp add: dropWhile_append)
  show ?thesis unfolding xs using * by simp
qed

lemma str_strip_hd: "str_strip s \<noteq> [] \<Longrightarrow> \<not> is_space (hd (str_strip s))"
proof -
  assume ne: "str_strip s \<noteq> []"
  let ?t = "dropWhile is_space s"
  have t: "?t \<noteq> []"
  proof
    assume "?t = []"
    then have "str_strip s = []" by (simp only: str_strip_def rev.simps dropWhile.simps)
    with ne show False by simp
  qed
  then have "\<not> is_space (hd ?t)" by (simp add: hd_dropWhile)
  with t show ?thesis using dropWhile_rev_hd[of ?t is_space] by (simp add: str_strip_def)
qed

lemma str_strip_last: "str_strip s \<noteq> [] \<Longrightarrow> \<not> is_space (last (str_strip s))"
proof -
  assume ne: "str_strip s \<noteq> []"
  let ?r = "dropWhile is_space (rev (dropWhile is_space s))"
  have r: "?r \<noteq> []" using ne by (simp add: str_strip_def)
  then have "\<not> is_space (hd ?r)" by (simp add: hd_dropWhile)
  then show ?thesis using r by (simp add: str_strip_def last_rev)
qed



lemma str_strip_decomp:
  "\<exists>a b. s = a @ str_strip s @ b \<and> (\<forall>c\<in>set a. is_space c) \<and> (\<forall>c\<in>set b. is_space c)"
proof -
  let ?a = "takeWhile is_space s"
  let ?t = "dropWhile is_space s"
  let ?b = "rev (takeWhile is_space (rev ?t))"
  have e: "rev (takeWhile is_space (rev ?t) @ dropWhile is_space (rev ?t)) = ?t"
    by (simp only: takeWhile_dropWhile_id rev_rev_ident)
  have "str_strip s @ ?b = rev (takeWhile is_space (rev ?t) @ dropWhile is_space (rev ?t))"
    by (simp only: str_strip_def rev_append)
  with e have "?t = str_strip s @ ?b" by (simp only:)
  then have "s = ?a @ str_strip s @ ?b" by (metis takeWhile_dropWhile_id)
  moreover have "\<forall>c\<in>set ?a. is_space c" by (auto dest: set_takeWhileD)
  moreover have "\<forall>c\<in>set ?b. is_space c" by (auto dest: set_takeWhileD)
  ultimately show ?thesis by blast
qed

section \<open>The validation loop on a sequence of string tokens\<close>

lemma usages_get_append:
  "usages_get (usages_append u k tok) n = (if n = k then usages_get u k @ [tok] else usages_get u n)"
  by (simp add: usages_get_def usages_append_def update_conv')

lemma validate_loop_bad:
  "find (\<lambda>t. \<not> model c (base_field_name t)) ts = Some t \<Longrightarrow>
   validate_loop c (map PStr ts) u d = Inl (not_valid_ordering_field (base_field_name t))"
  by (induction ts arbitrary: u d) (auto simp: Let_def)

lemma validate_loop_good:
  "\<forall>t\<in>set ts. model c (base_field_name t) \<Longrightarrow>
   \<exists>u' d'. validate_loop c (map PStr ts) u d = Inr (u', d')
      \<and> (\<forall>n. usages_get u' n = usages_get u n @ tokens_of n ts)
      \<and> set d' = set d \<union> {n \<in> base_field_name ` set ts. 1 < length (usages_get u' n)}
      \<and> (distinct d \<longrightarrow> distinct d')"
proof (induction ts arbitrary: u d)
  case Nil
  then show ?case by (simp add: tokens_of_def)
next
  case (Cons t ts)
  let ?k = "base_field_name t"
  let ?u1 = "usages_append u ?k t"
  let ?d1 = "if 1 < length (usages_get ?u1 ?k) then List.insert ?k d else d"
  from Cons.prems have ok: "model c ?k" and rest: "\<forall>t\<in>set ts. model c (base_field_name t)"
    by simp_all
  from Cons.IH[OF rest, of ?u1 ?d1] obtain u' d' where
    run: "validate_loop c (map PStr ts) ?u1 ?d1 = Inr (u', d')"
    and us: "\<forall>n. usages_get u' n = usages_get ?u1 n @ tokens_of n ts"
    and ds: "set d' = set ?d1 \<union> {n \<in> base_field_name ` set ts. 1 < length (usages_get u' n)}"
    and dd: "distinct ?d1 \<longrightarrow> distinct d'"
    by blast
  have step: "validate_loop c (map PStr (t # ts)) u d = Inr (u', d')"
    using ok run by (simp add: Let_def split: if_splits)
  have us': "\<forall>n. usages_get u' n = usages_get u n @ tokens_of n (t # ts)"
    using us by (simp add: usages_get_append tokens_of_def)
  have len: "length (usages_get ?u1 ?k) \<le> length (usages_get u' ?k)"
    using us by simp
  have ds': "set d' = set d \<union> {n \<in> base_field_name ` set (t # ts). 1 < length (usages_get u' n)}"
  proof (cases "1 < length (usages_get ?u1 ?k)")
    case True
    then have "1 < length (usages_get u' ?k)" using len by linarith
    with True ds show ?thesis by auto
  next
    case False
    then have k1: "length (usages_get ?u1 ?k) = 1" by (simp add: usages_get_append)
    show ?thesis
    proof (cases "1 < length (usages_get u' ?k)")
      case True
      then have "tokens_of ?k ts \<noteq> []" using us k1 by auto
      then obtain x where "x \<in> set ts" "base_field_name x = ?k"
        by (auto simp: tokens_of_def filter_empty_conv)
      then have "?k \<in> base_field_name ` set ts" by (metis imageI)
      with False ds show ?thesis by auto
    next
      case F2: False
      with False ds show ?thesis by auto
    qed
  qed
  have dd': "distinct d \<longrightarrow> distinct d'" using dd by simp
  from step us' ds' dd' show ?case by blast
qed

lemma sort_duplicated:
  assumes "distinct d"
    and "set d = {n \<in> base_field_name ` set ts. 1 < length (tokens_of n ts)}"
  shows "sort d = duplicated_names ts"
proof -
  have "set (sort d) = set (duplicated_names ts)"
    using assms(2) by (auto simp: duplicated_names_def)
  moreover have "distinct (sort d)" using assms(1) by simp
  moreover have "distinct (duplicated_names ts)" by (simp add: duplicated_names_def)
  moreover have "sorted (sort d)" "sorted (duplicated_names ts)" by (simp_all add: duplicated_names_def)
  ultimately show ?thesis by (blast intro: sorted_distinct_set_unique)
qed

lemma distinct_map_filter_le1:
  "distinct (map f xs) \<longleftrightarrow> (\<forall>x\<in>set xs. length (filter (\<lambda>y. f y = f x) xs) \<le> 1)"
proof (induction xs)
  case Nil
  then show ?case by simp
next
  case (Cons a xs)
  have head: "f a \<notin> f ` set xs \<longleftrightarrow> filter (\<lambda>y. f y = f a) xs = []"
    unfolding filter_empty_conv image_iff by metis
  show ?case
  proof
    assume d: "distinct (map f (a # xs))"
    then have na: "f a \<notin> f ` set xs" and dx: "distinct (map f xs)" by simp_all
    from dx Cons.IH have ih: "\<forall>x\<in>set xs. length (filter (\<lambda>y. f y = f x) xs) \<le> 1" by simp
    show "\<forall>x\<in>set (a # xs). length (filter (\<lambda>y. f y = f x) (a # xs)) \<le> 1"
      using na ih head by auto
  next
    assume r: "\<forall>x\<in>set (a # xs). length (filter (\<lambda>y. f y = f x) (a # xs)) \<le> 1"
    then have "length (filter (\<lambda>y. f y = f a) (a # xs)) \<le> 1" by simp
    then have na: "f a \<notin> f ` set xs" using head by simp
    have "\<forall>x\<in>set xs. length (filter (\<lambda>y. f y = f x) xs) \<le> 1"
    proof
      fix x assume "x \<in> set xs"
      with r have "length (filter (\<lambda>y. f y = f x) (a # xs)) \<le> 1" by simp
      then show "length (filter (\<lambda>y. f y = f x) xs) \<le> 1" by (simp split: if_splits)
    qed
    with Cons.IH have "distinct (map f xs)" by simp
    with na show "distinct (map f (a # xs))" by simp
  qed
qed

lemma duplicated_names_empty_iff: "duplicated_names ts = [] \<longleftrightarrow> distinct (map base_field_name ts)"
proof -
  have "duplicated_names ts = [] \<longleftrightarrow> (\<forall>t\<in>set ts. length (tokens_of (base_field_name t) ts) \<le> 1)"
    by (auto simp: duplicated_names_def filter_empty_conv not_less simp flip: set_empty)
  also have "\<dots> \<longleftrightarrow> distinct (map base_field_name ts)"
    by (simp add: distinct_map_filter_le1[of base_field_name ts] tokens_of_def)
  finally show ?thesis .
qed

text \<open>Full description of the validator on a sequence of string tokens.\<close>

lemma validate_order_by_tokens:
  assumes "ts \<noteq> []"
  shows "validate_order_by c (PList (map PStr ts)) (ordering_field_name c) =
     (case find (\<lambda>t. \<not> model c (base_field_name t)) ts of
        Some t \<Rightarrow> Inl (not_valid_ordering_field (base_field_name t))
      | None \<Rightarrow>
          if duplicated_names ts \<noteq> [] then Inl (ambiguous_error c (ambiguous_tokens ts))
          else Inr (PList (map PStr ts)))"
proof (cases "find (\<lambda>t. \<not> model c (base_field_name t)) ts")
  case (Some t)
  then show ?thesis using assms by (simp add: validate_order_by_def validate_loop_bad)
next
  case None
  then have all: "\<forall>t\<in>set ts. model c (base_field_name t)" by (auto simp: find_None_iff)
  from validate_loop_good[OF all, of "[]" "[]"] obtain u' d' where
    run: "validate_loop c (map PStr ts) [] [] = Inr (u', d')"
    and us: "\<forall>n. usages_get u' n = tokens_of n ts"
    and ds: "set d' = {n \<in> base_field_name ` set ts. 1 < length (usages_get u' n)}"
    and dd: "distinct d'"
    by (auto simp: usages_get_def)
  have srt: "sort d' = duplicated_names ts"
    using dd ds us by (intro sort_duplicated) auto
  have emp: "d' = [] \<longleftrightarrow> duplicated_names ts = []"
    using srt by (metis sort_key_simps(1) set_sort set_empty)
  have amb: "concat (map (usages_get u') (sort d')) = ambiguous_tokens ts"
  proof -
    have "usages_get u' = (\<lambda>n. tokens_of n ts)" using us by auto
    then show ?thesis by (simp add: srt ambiguous_tokens_def)
  qed
  show ?thesis using assms None run emp amb
    by (simp add: validate_order_by_def)
qed

lemmas run_validators =
  strip_then_validate_def strip_order_by_values_def validate_order_by_def
  example_constants_def str_strip_def is_space_def base_field_name_def str_remove_def
  usages_append_def usages_get_def Let_def not_valid_ordering_field_def ambiguous_error_def

section \<open>The strip rule\<close>

text \<open>
  Claim C9. On the ordering field, \<^verbatim>\<open>strip_order_by_values\<close> turns a null or empty input
  into \<^verbatim>\<open>None\<close> without raising; on a non-empty sequence of tokens it returns the tokens
  trimmed of surrounding whitespace, in order, without those that are empty after trimming
  (trimming removes a whitespace prefix and a whitespace suffix and leaves a string that neither
  starts nor ends with whitespace); on any other field it returns its input unchanged.
\<close>

theorem strip_order_by_values_spec:
  "(\<not> truthy value \<longrightarrow> strip_order_by_values c value (ordering_field_name c) = Inr PNone)
   \<and> (ts \<noteq> [] \<longrightarrow>
        strip_order_by_values c (PList (map PStr ts)) (ordering_field_name c)
          = Inr (PList (map PStr (filter (\<lambda>s. s \<noteq> []) (map str_strip ts)))))
   \<and> (\<exists>a b. t = a @ str_strip t @ b \<and> (\<forall>ch\<in>set a. is_space ch) \<and> (\<forall>ch\<in>set b. is_space ch))
   \<and> (str_strip t \<noteq> [] \<longrightarrow> \<not> is_space (hd (str_strip t)) \<and> \<not> is_space (last (str_strip t)))
   \<and> (field_name \<noteq> ordering_field_name c \<longrightarrow> strip_order_by_values c value field_name = Inr value)"
proof -
  have 1: "\<not> truthy value \<longrightarrow> strip_order_by_values c value (ordering_field_name c) = Inr PNone"
    by (simp add: strip_order_by_values_def)
  have 2: "ts \<noteq> [] \<longrightarrow>
        strip_order_by_values c (PList (map PStr ts)) (ordering_field_name c)
          = Inr (PList (map PStr (filter (\<lambda>s. s \<noteq> []) (map str_strip ts))))"
    by (simp add: strip_order_by_values_def strip_loop_strs)
  have 3: "field_name \<noteq> ordering_field_name c \<longrightarrow> strip_order_by_values c value field_name = Inr value"
    by (simp add: strip_order_by_values_def)
  from 1 2 3 str_strip_decomp[of t] str_strip_hd[of t] str_strip_last[of t] show ?thesis by blast
qed

text \<open>
  Claim C9 at concrete inputs: \<^verbatim>\<open>None\<close>, three tokens one of which is blank, and a value of
  another field.
\<close>

theorem strip_order_by_values_spec_witness:
  "strip_order_by_values example_constants PNone ''order_by'' = Inr PNone
   \<and> strip_order_by_values example_constants (PList [PStr '' -name '', PStr ''  '', PStr ''age''])
        ''order_by'' = Inr (PList [PStr ''-name'', PStr ''age''])
   \<and> str_strip '' -name '' = ''-name''
   \<and> strip_order_by_values example_constants (PStr '' x '') ''name'' = Inr (PStr '' x '')"
  using strip_order_by_values_spec[of PNone example_constants "['' -name '', ''  '', ''age'']"
      "'' -name ''" "''name''"]
    strip_order_by_values_spec[of "PStr '' x ''" example_constants "[''a'']" "''a''" "''name''"]
  by (simp add: example_constants_def str_strip_def is_space_def)






section \<open>The validate rule\<close>

text \<open>
  Claim C3 as stated fails. With only its leading marker stripped, the token \<^verbatim>\<open>--name\<close> has the
  base name \<^verbatim>\<open>-name\<close>, which is not an attribute of the target model; the validator removes
  every marker character, finds \<^verbatim>\<open>name\<close> and accepts the token.
\<close>

theorem validate_order_by_leading_marker_counterexample:
  "\<not> model example_constants (spec_base_field_name ''--name'')
   \<and> validate_order_by example_constants (PList [PStr ''--name'']) ''order_by''
       = Inr (PList [PStr ''--name''])"
  by (simp add: run_validators)

text \<open>
  Claim C3, amended. The validator obtains the base field name of a token by removing every
  \<^verbatim>\<open>+\<close> and \<^verbatim>\<open>-\<close> character from it. If some token's base field name is not an attribute of
  the target model, validation fails with the error that names the base field name of the
  first such token; if every base field name is an attribute, no such error is raised: the
  sequence is returned, or the ambiguity error is raised.
\<close>

theorem validate_order_by_unknown_field:
  assumes "ts \<noteq> []"
  shows "base_field_name t = filter (\<lambda>ch. ch \<noteq> CHR ''+'' \<and> ch \<noteq> CHR ''-'') t
   \<and> (case find (\<lambda>t. \<not> model c (base_field_name t)) ts of
        Some bad \<Rightarrow>
          validate_order_by c (PList (map PStr ts)) (ordering_field_name c)
            = Inl (ValueError (base_field_name bad @ '' is not a valid ordering field.''))
      | None \<Rightarrow>
          validate_order_by c (PList (map PStr ts)) (ordering_field_name c)
            = Inr (PList (map PStr ts))
          \<or> validate_order_by c (PList (map PStr ts)) (ordering_field_name c)
            = Inl (ambiguous_error c (ambiguous_tokens ts)))"
proof -
  have "base_field_name t = filter (\<lambda>ch. ch \<noteq> CHR ''+'' \<and> ch \<noteq> CHR ''-'') t"
    by (simp add: base_field_name_def str_remove_def conj_commute)
  then show ?thesis
    using assms
    by (simp add: validate_order_by_tokens not_valid_ordering_field_def split: option.splits)
qed

text \<open>
  Claim C3, amended, at concrete inputs: a sequence whose second token is unknown, and a valid
  sequence.
\<close>

theorem validate_order_by_unknown_field_witness:
  "base_field_name ''--na+me'' = ''name''
   \<and> validate_order_by example_constants (PList [PStr ''name'', PStr ''-zzz'', PStr ''yyy'']) ''order_by''
       = Inl (ValueError ''zzz is not a valid ordering field.'')
   \<and> validate_order_by example_constants (PList [PStr ''name'', PStr ''-age'']) ''order_by''
       = Inr (PList [PStr ''name'', PStr ''-age''])"
  using validate_order_by_unknown_field[of "[''name'', ''-zzz'', ''yyy'']" "''--na+me''" example_constants]
    validate_order_by_unknown_field[of "[''name'', ''-age'']" "''--na+me''" example_constants]
  by (simp add: run_validators)

text \<open>
  Claim C2 as stated fails. The sequence \<^verbatim>\<open>zzz, -zzz\<close> uses the base field name \<^verbatim>\<open>zzz\<close> twice,
  but \<^verbatim>\<open>zzz\<close> is not an attribute of the target model: the loop raises the unknown-field error
  at the first token, and the message that lists the ambiguous tokens is never built.
\<close>

theorem validate_order_by_duplicate_counterexample:
  "\<not> distinct (map spec_base_field_name [''zzz'', ''-zzz''])
   \<and> validate_order_by example_constants (PList [PStr ''zzz'', PStr ''-zzz'']) ''order_by''
       = Inl (ValueError ''zzz is not a valid ordering field.'')
   \<and> validate_order_by example_constants (PList [PStr ''zzz'', PStr ''-zzz'']) ''order_by''
       \<noteq> Inl (ValueError (''Field names can appear at most once for order_by. ''
                 @ ''The following was ambiguous: zzz, -zzz.''))"
  by (simp add: run_validators)

lemma set_duplicated_names:
  "set (duplicated_names ts) = {n. 1 < length (tokens_of n ts)}"
proof -
  have "n \<in> base_field_name ` set ts" if "1 < length (tokens_of n ts)" for n
  proof -
    from that have "tokens_of n ts \<noteq> []" by auto
    then obtain x where "x \<in> set ts" "base_field_name x = n"
      by (auto simp: tokens_of_def filter_empty_conv)
    then show ?thesis by (metis imageI)
  qed
  then show ?thesis by (auto simp: duplicated_names_def)
qed

lemma set_ambiguous_tokens:
  "set (ambiguous_tokens ts) = {t \<in> set ts. 1 < length (tokens_of (base_field_name t) ts)}"
  by (auto simp: ambiguous_tokens_def set_duplicated_names) (auto simp: tokens_of_def)

text \<open>
  Claim C2, amended. If every token's base field name (the token without its \<^verbatim>\<open>+\<close> and
  \<^verbatim>\<open>-\<close> characters) is an attribute of the target model and some base field name occurs more
  than once, validation of the ordering field fails with one error whose message lists,
  joined by a comma and a space, exactly the tokens whose base field name occurs more than
  once: grouped by base field name, the groups in sorted order of the name, each group in the
  order of the input.
\<close>

theorem validate_order_by_duplicates:
  assumes "\<forall>t\<in>set ts. model c (base_field_name t)"
    and "\<not> distinct (map base_field_name ts)"
  shows "validate_order_by c (PList (map PStr ts)) (ordering_field_name c)
      = Inl (ValueError (''Field names can appear at most once for '' @ ordering_field_name c
                         @ ''. '' @ ''The following was ambiguous: ''
                         @ str_join '', '' (ambiguous_tokens ts) @ ''.''))
   \<and> ambiguous_tokens ts
       = concat (map (\<lambda>n. filter (\<lambda>t. base_field_name t = n) ts) (duplicated_names ts))
   \<and> sorted (duplicated_names ts) \<and> distinct (duplicated_names ts)
   \<and> set (duplicated_names ts) = {n. 1 < length (filter (\<lambda>t. base_field_name t = n) ts)}
   \<and> set (ambiguous_tokens ts)
       = {t \<in> set ts. 1 < length (filter (\<lambda>t'. base_field_name t' = base_field_name t) ts)}"
proof -
  from assms(2) have ne: "ts \<noteq> []" by auto
  from assms(1) have none: "find (\<lambda>t. \<not> model c (base_field_name t)) ts = None"
    by (simp add: find_None_iff)
  from assms(2) have dup: "duplicated_names ts \<noteq> []" by (simp add: duplicated_names_empty_iff)
  have run: "validate_order_by c (PList (map PStr ts)) (ordering_field_name c)
      = Inl (ambiguous_error c (ambiguous_tokens ts))"
    using none dup by (simp add: validate_order_by_tokens[OF ne])
  have srt: "sorted (duplicated_names ts)" "distinct (duplicated_names ts)"
    by (simp_all add: duplicated_names_def)
  have amb: "ambiguous_tokens ts
       = concat (map (\<lambda>n. filter (\<lambda>t. base_field_name t = n) ts) (duplicated_names ts))"
    by (simp add: ambiguous_tokens_def tokens_of_def)
  show ?thesis
    using run srt amb set_duplicated_names[of ts] set_ambiguous_tokens[of ts]
    by (simp add: ambiguous_error_def tokens_of_def)
qed

text \<open>
  Claim C2, amended, at a sequence with two duplicated names.
\<close>

theorem validate_order_by_duplicates_witness:
  "validate_order_by example_constants
       (PList [PStr ''name'', PStr ''-created_at'', PStr ''age'', PStr ''-name'', PStr ''+age''])
       ''order_by''
     = Inl (ValueError (''Field names can appear at most once for order_by. ''
                        @ ''The following was ambiguous: age, +age, name, -name.''))"
proof -
  let ?ts = "[''name'', ''-created_at'', ''age'', ''-name'', ''+age'']"
  have h1: "\<forall>t\<in>set ?ts. model example_constants (base_field_name t)"
    by (simp add: example_constants_def base_field_name_def str_remove_def)
  have h2: "\<not> distinct (map base_field_name ?ts)"
    by (simp add: base_field_name_def str_remove_def)
  have amb: "ambiguous_tokens ?ts = [''age'', ''+age'', ''name'', ''-name'']"
    by code_simp
  from validate_order_by_duplicates[OF h1 h2] show ?thesis
    by (simp add: amb example_constants_def)
qed

section \<open>filtering_fields, ordering_values and the dependency wrapper\<close>

lemma model_dump_conv:
  "model_dump by_alias exclude_unset exclude_none fs =
     map (\<lambda>f. (dump_key by_alias f, dump_value by_alias exclude_unset exclude_none (fvalue f)))
         (filter (\<lambda>f. \<not> ((exclude_unset \<and> \<not> fset f) \<or> (exclude_none \<and> fvalue f = PNone))) fs)"
proof (induction fs)
  case Nil
  then show ?case by simp
next
  case (Cons f fs)
  then show ?case by (cases f) simp
qed

text \<open>
  Claim C7. \<^verbatim>\<open>filtering_fields\<close> returns, in declaration order, exactly the fields that were
  supplied at construction, whose value is not \<^verbatim>\<open>None\<close> and whose name is not the ordering
  field name of the Constants, each under its name with its value (a nested model serialised
  by the same rule). So the ordering field name is never a key of the result, and every key is
  a supplied field with a value other than \<^verbatim>\<open>None\<close>.
\<close>

theorem filtering_fields_spec:
  "filtering_fields c self =
     map (\<lambda>f. (fname f, dump_value False True True (fvalue f)))
         (filter (\<lambda>f. fset f \<and> fvalue f \<noteq> PNone \<and> fname f \<noteq> ordering_field_name c) self)
   \<and> ordering_field_name c \<notin> fst ` set (filtering_fields c self)
   \<and> (\<forall>kv\<in>set (filtering_fields c self).
         \<exists>f\<in>set self. fname f = fst kv \<and> fset f \<and> fvalue f \<noteq> PNone)"
proof -
  have eq: "filtering_fields c self =
     map (\<lambda>f. (fname f, dump_value False True True (fvalue f)))
         (filter (\<lambda>f. fset f \<and> fvalue f \<noteq> PNone \<and> fname f \<noteq> ordering_field_name c) self)"
  proof -
    have "filter (\<lambda>f. fset f \<and> fvalue f \<noteq> PNone \<and> ordering_field_name c \<noteq> fname f) self
        = filter (\<lambda>f. fset f \<and> fvalue f \<noteq> PNone \<and> fname f \<noteq> ordering_field_name c) self"
      by (rule filter_cong) auto
    then show ?thesis
      by (simp add: filtering_fields_def model_dump_conv AList.delete_eq filter_map comp_def
          dump_key_def conj_commute conj_left_commute)
  qed
  show ?thesis unfolding eq by (auto simp: image_iff)
qed

text \<open>
  Claim C7 on the example instance: only \<^verbatim>\<open>name\<close> is left.
\<close>

theorem filtering_fields_spec_witness:
  "filtering_fields example_constants example_fields = [(''name'', PStr ''Bob'')]"
  using filtering_fields_spec[of example_constants example_fields]
  by (simp add: example_constants_def example_fields_def)

text \<open>
  Claim C10 as stated fails. With the ordering field name \<^verbatim>\<open>filter\<close>, which is not a field of
  the example instance, \<^verbatim>\<open>getattr\<close> finds the method \<^verbatim>\<open>filter\<close> of the class and
  \<^verbatim>\<open>ordering_values\<close> returns it; no error is raised.
\<close>

theorem ordering_values_method_counterexample:
  "find (\<lambda>f. fname f = ''filter'') example_fields = None
   \<and> ordering_values (example_constants\<lparr>ordering_field_name := ''filter''\<rparr>)
        example_class_attrs ''UserFilter'' example_fields = Inr (PObject ''method'')"
  by (simp add: ordering_values_def py_getattr_def example_constants_def example_fields_def
      example_class_attrs_def)

text \<open>
  Claim C10, amended. If the ordering field name of the Constants is neither a field of the
  instance nor any other attribute of its class, \<^verbatim>\<open>ordering_values\<close> raises
  \<^verbatim>\<open>AttributeError\<close> with the message that names the missing ordering field; if it is a field,
  \<^verbatim>\<open>ordering_values\<close> returns the value of that field.
\<close>

theorem ordering_values_spec:
  "(find (\<lambda>f. fname f = ordering_field_name c) self = None \<and> class_attrs (ordering_field_name c) = None
      \<longrightarrow> ordering_values c class_attrs cls self
            = Inl (AttributeError (''Ordering field '' @ ordering_field_name c @ '' is not defined. ''
                                   @ ''Make sure to add it to your filter class.'')))
   \<and> (find (\<lambda>f. fname f = ordering_field_name c) self = Some f
      \<longrightarrow> ordering_values c class_attrs cls self = Inr (fvalue f))"
  by (simp add: ordering_values_def py_getattr_def no_attribute_def)

text \<open>
  Claim C10, amended, on the example instance: the missing name \<^verbatim>\<open>sort_by\<close>, and the field
  \<^verbatim>\<open>order_by\<close>.
\<close>

theorem ordering_values_spec_witness:
  "ordering_values (example_constants\<lparr>ordering_field_name := ''sort_by''\<rparr>)
        example_class_attrs ''UserFilter'' example_fields
     = Inl (AttributeError ''Ordering field sort_by is not defined. Make sure to add it to your filter class.'')
   \<and> ordering_values example_constants example_class_attrs ''UserFilter'' example_fields
     = Inr (PList [PStr ''-age''])"
  using ordering_values_spec[of "example_constants\<lparr>ordering_field_name := ''sort_by''\<rparr>"
      example_fields example_class_attrs "''UserFilter''" "PyField ''x'' None False PNone"]
    ordering_values_spec[of example_constants example_fields example_class_attrs "''UserFilter''"
      "PyField ''order_by'' None True (PList [PStr ''-age''])"]
  by (simp add: example_constants_def example_fields_def example_class_attrs_def)

text \<open>
  Claim C6. \<^verbatim>\<open>FilterWrapper.filter\<close> and \<^verbatim>\<open>FilterWrapper.sort\<close> first construct the original
  schema from the dump of the adapted instance. If the construction raises
  \<^verbatim>\<open>ValidationError\<close>, the call raises \<^verbatim>\<open>RequestValidationError\<close> with the same list of
  errors, whatever the original \<^verbatim>\<open>filter\<close>/\<^verbatim>\<open>sort\<close> is, and the state of the data-access
  layer is the one before the call: the original method is not run. If the construction
  succeeds, the call is the original method on the constructed instance, with the same
  arguments, and returns its result.
\<close>

theorem FilterWrapper_spec:
  "(Filter (model_dump by_alias False False self) = Inl (ValidationError errs) \<longrightarrow>
      FilterWrapper_filter Filter Filter_filter by_alias self args s
        = (Inl (RequestValidationError errs), s)
    \<and> FilterWrapper_sort Filter Filter_sort by_alias self args s
        = (Inl (RequestValidationError errs), s))
   \<and> (Filter (model_dump by_alias False False self) = Inr original_filter \<longrightarrow>
      FilterWrapper_filter Filter Filter_filter by_alias self args s
        = Filter_filter original_filter args s
    \<and> FilterWrapper_sort Filter Filter_sort by_alias self args s
        = Filter_sort original_filter args s)"
  by (simp add: FilterWrapper_filter_def FilterWrapper_sort_def)

text \<open>
  Claim C6 on the example adapted instance: against a schema that does not declare
  \<^verbatim>\<open>order_by\<close> the construction fails, the error is translated and nothing is recorded;
  against the schema that declares both fields the call is recorded once.
\<close>

theorem FilterWrapper_spec_witness:
  "FilterWrapper_filter (closed_schema_init ''F'' [''count'']) logging_method False
       example_adapted ''q'' []
     = (Inl (RequestValidationError
               [\<lparr>err_type = ''extra_forbidden'', err_loc = [''order_by''],
                 err_msg = ''Extra inputs are not permitted''\<rparr>]), [])
   \<and> FilterWrapper_sort (closed_schema_init ''F'' [''count'', ''order_by'']) logging_method False
       example_adapted ''q'' []
     = (Inr ''q'', [(''q'', PModel ''F'' example_adapted)])"
proof -
  have bad: "closed_schema_init ''F'' [''count''] (model_dump False False False example_adapted)
     = Inl (ValidationError [\<lparr>err_type = ''extra_forbidden'', err_loc = [''order_by''],
                 err_msg = ''Extra inputs are not permitted''\<rparr>])"
    by (simp add: closed_schema_init_def example_adapted_def dump_key_def)
  have good: "closed_schema_init ''F'' [''count'', ''order_by'']
       (model_dump False False False example_adapted) = Inr (PModel ''F'' example_adapted)"
    by (simp add: closed_schema_init_def example_adapted_def dump_key_def)
  from FilterWrapper_spec[of "closed_schema_init ''F'' [''count'']" False example_adapted _
      logging_method "''q''" "[]" logging_method]
    FilterWrapper_spec[of "closed_schema_init ''F'' [''count'', ''order_by'']" False example_adapted _
      logging_method "''q''" "[]" logging_method "PModel ''F'' example_adapted"]
    bad good
  show ?thesis by (simp add: logging_method_def)
qed


section \<open>The reconstruction rule of with_prefix\<close>

lemma removeprefix_alias: "removeprefix pfx (alias_generator pfx name) = ''__'' @ name"
  by (simp add: removeprefix_def alias_generator_def)

lemma plain_validator_other:
  "(\<forall>cls fs. value \<noteq> PModel cls fs) \<Longrightarrow> (\<forall>items. value \<noteq> PDict items) \<Longrightarrow>
   plain_validator pfx Filter value
     = Inl (ValueError (''Unexpected type: <class '' @ [CHR 0x27] @ type_name value @ [CHR 0x27] @ ''>''))"
  by (cases "value") (simp_all add: plain_validator_def)

text \<open>
  Claim C1 at the input of the claim. The alias generator of the prefixed schema names the
  field \<^verbatim>\<open>x\<close> \<^verbatim>\<open>p__x\<close>, but \<^verbatim>\<open>plain_validator\<close> removes only the prefix \<^verbatim>\<open>p\<close> from a key:
  from the mapping with the key \<^verbatim>\<open>p__x\<close> it constructs the original schema with the keyword
  \<^verbatim>\<open>__x\<close>, which the closed schema rejects, whereas constructing directly from \<^verbatim>\<open>x\<close>
  succeeds.
\<close>

theorem plain_validator_prefixed_key:
  "alias_generator ''p'' ''x'' = ''p__x''
   \<and> plain_validator ''p'' (closed_schema_init ''S'' [''x'']) (PDict [(''p__x'', PInt 1)])
       = closed_schema_init ''S'' [''x''] [(''__x'', PInt 1)]
   \<and> closed_schema_init ''S'' [''x''] [(''__x'', PInt 1)]
       = Inl (ValidationError [\<lparr>err_type = ''extra_forbidden'', err_loc = [''__x''],
                                err_msg = ''Extra inputs are not permitted''\<rparr>])
   \<and> closed_schema_init ''S'' [''x''] [(''x'', PInt 1)]
       = Inr (PModel ''S'' [PyField ''x'' None True (PInt 1)])"
  by (simp add: alias_generator_def plain_validator_def stripped_dict_def removeprefix_def
      closed_schema_init_def)


section \<open>The field-schema adapter and the round trip of a list field\<close>

lemma join_items_strs: "join_items i (map PStr xs) = Inr xs"
  by (induction xs arbitrary: i) simp_all

lemma split_commas_plain: "CHR '','' \<notin> set x \<Longrightarrow> split_commas x = [x]"
  by (induction x) auto

lemma split_commas_append:
  "CHR '','' \<notin> set x \<Longrightarrow> split_commas (x @ CHR '','' # rest) = x # split_commas rest"
  by (induction x) auto

lemma split_commas_join:
  "xs \<noteq> [] \<Longrightarrow> \<forall>x\<in>set xs. CHR '','' \<notin> set x \<Longrightarrow> split_commas (str_join '','' xs) = xs"
proof (induction "'',''" xs rule: str_join.induct)
  case 1
  then show ?case by simp
next
  case (2 x)
  then show ?case by (simp add: split_commas_plain)
next
  case (3 x y ys)
  then show ?case by (simp add: split_commas_append)
qed

lemma adapt_field_other:
  "\<not> is_list_annotation (unwrap_union (annotation f)) \<Longrightarrow> adapt_field f = Inr (annotation f, f)"
  by (simp add: adapt_field_def)

lemma adapt_field_list_no_default:
  "is_list_annotation (unwrap_union (annotation f)) \<Longrightarrow> \<not> is_iterable (default_val f) \<Longrightarrow>
   adapt_field f
     = Inr (if is_required f then TClass ''str'' else TUnion [TClass ''str'', TNoneType], f)"
  by (cases "default_val f") (simp_all add: adapt_field_def Let_def)

lemma adapt_field_list_str_default:
  "is_list_annotation (unwrap_union (annotation f)) \<Longrightarrow>
   default_val f = Default (PList (map PStr xs)) \<Longrightarrow>
   adapt_field f
     = Inr (TUnion [TClass ''str'', TNoneType], f\<lparr>default_val := Default (PStr (str_join '','' xs))\<rparr>)"
  by (simp add: adapt_field_def Let_def is_required_def is_iterable_def py_join_def join_items_strs)

lemma adapt_field_required:
  "adapt_field f = Inr (t, f') \<Longrightarrow> is_required f' = is_required f"
  by (auto simp: adapt_field_def Let_def is_required_def
      split: if_splits default_value.splits sum.splits)

lemma unwrap_union_optional: "x \<noteq> TNoneType \<Longrightarrow> unwrap_union (TUnion [x, TNoneType]) = x"
  by (simp add: unwrap_union_def)

lemma unwrap_union_many:
  "x \<noteq> TNoneType \<Longrightarrow> y \<noteq> TNoneType \<Longrightarrow>
   unwrap_union (TUnion [x, y, TNoneType]) = TUnion [x, y, TNoneType]"
  by (simp add: unwrap_union_def)

lemma list_to_str_loop_names:
  "list_to_str_loop fs ret = Inr ret' \<Longrightarrow> distinct (map fst ret @ map fst fs) \<Longrightarrow>
   map fst ret' = map fst ret @ map fst fs"
proof (induction fs ret rule: list_to_str_loop.induct)
  case (1 ret)
  then show ?case by simp
next
  case (2 name f rest ret)
  from "2.prems"(1) obtain entry where e: "adapt_field f = Inr entry"
    and run: "list_to_str_loop rest (AList.update name entry ret) = Inr ret'"
    by (auto split: sum.splits)
  from "2.prems"(2) have fresh: "name \<notin> fst ` set ret" by auto
  then have keys: "map fst (AList.update name entry ret) = map fst ret @ [name]"
    by (simp add: update_keys)
  with "2.prems"(2) have "distinct (map fst (AList.update name entry ret) @ map fst rest)" by simp
  from "2.IH"[OF e run this] keys show ?case by simp
qed

lemma list_to_str_fields_names:
  "list_to_str_fields fs = Inr ret \<Longrightarrow> distinct (map fst fs) \<Longrightarrow> map fst ret = map fst fs"
  using list_to_str_loop_names[of fs "[]" ret] by (simp add: list_to_str_fields_def)

text \<open>
  Claim C4. For a field whose declared type is a list, or a union that unwraps to a list, with
  a default that is a non-empty list of strings without commas, the adapter replaces the
  default by the elements joined with commas (and the type by the optional string), and
  parsing that string at reconstruction gives the original list back.
\<close>

theorem list_field_roundtrip:
  assumes "xs \<noteq> []" and "\<forall>x\<in>set xs. CHR '','' \<notin> set x"
    and "is_list_annotation (unwrap_union (annotation f))"
    and "default_val f = Default (PList (map PStr xs))"
  shows "list_to_str_fields [(name, f)]
           = Inr [(name, TUnion [TClass ''str'', TNoneType],
                   f\<lparr>default_val := Default (PStr (str_join '','' xs))\<rparr>)]
         \<and> reconstruct_list (str_join '','' xs) = PList (map PStr xs)"
  using assms
  by (simp add: list_to_str_fields_def adapt_field_def is_required_def is_iterable_def py_join_def
      join_items_strs reconstruct_list_def split_commas_join Let_def)

text \<open>
  Claim C4 at the list of the claim: \<^verbatim>\<open>["a", "b"]\<close> is adapted to \<^verbatim>\<open>"a,b"\<close>, which parses back
  to \<^verbatim>\<open>["a", "b"]\<close>.
\<close>

theorem list_field_roundtrip_witness:
  "list_to_str_fields
       [(''tags'', \<lparr>annotation = TUnion [TList (TClass ''str''), TNoneType],
                   default_val = Default (PList [PStr ''a'', PStr ''b'']),
                   default_factory = None, field_alias = None\<rparr>)]
     = Inr [(''tags'', TUnion [TClass ''str'', TNoneType],
             \<lparr>annotation = TUnion [TList (TClass ''str''), TNoneType],
              default_val = Default (PStr ''a,b''),
              default_factory = None, field_alias = None\<rparr>)]
   \<and> reconstruct_list ''a,b'' = PList [PStr ''a'', PStr ''b'']"
  using list_field_roundtrip[of "[''a'', ''b'']"
      "\<lparr>annotation = TUnion [TList (TClass ''str''), TNoneType],
        default_val = Default (PList [PStr ''a'', PStr ''b'']),
        default_factory = None, field_alias = None\<rparr>" "''tags''"]
  by (simp add: unwrap_union_def)

lemma show_nat_0: "show_nat 0 = ''0''"
  by code_simp

text \<open>
  Claim C5 at a schema with an optional list of integers whose default is \<^verbatim>\<open>[1, 2]\<close>: the
  join of the default raises \<^verbatim>\<open>TypeError\<close> and no adapted schema is built.
\<close>

theorem list_to_str_fields_int_default:
  "list_to_str_fields
       [(''name'', \<lparr>annotation = TUnion [TClass ''str'', TNoneType], default_val = Default PNone,
                   default_factory = None, field_alias = None\<rparr>),
        (''age__in'', \<lparr>annotation = TUnion [TList (TClass ''int''), TNoneType],
                      default_val = Default (PList [PInt 1, PInt 2]),
                      default_factory = None, field_alias = None\<rparr>)]
     = Inl (TypeError ''sequence item 0: expected str instance, int found'')"
  by (simp add: list_to_str_fields_def adapt_field_def unwrap_union_def is_iterable_def
      py_join_def show_nat_0 Let_def)

end
